theory Spec2Isabelle
  imports Main
begin

section \<open>Values, exceptions and model instances\<close>

text \<open>
  The module \<^verbatim>\<open>machina/models/fields.py\<close> defines two model fields. Its code works on
  dynamically typed Python values held in the \<^verbatim>\<open>__dict__\<close> of model instances. A
  \<^verbatim>\<open>MarkupText\<close> wrapper keeps a reference to its instance, so instances live in a store
  and are named by their address; every address holds an instance, as a Python reference
  never dangles.
\<close>

datatype pyval =
    PyNone
  | PyStr string
  | PyInt int
  | SafeText string
  | MarkupText nat string string
    \<comment> \<open>\<^verbatim>\<open>MarkupText(instance, field_name, rendered_field_name)\<close>\<close>

datatype validation_message =
    FileTooLarge int int
  | WidthNotAllowed int int int
  | HeightNotAllowed int int int

datatype configuration_message = CouldNotImport | SettingRequired

datatype exn =
    AttributeError
  | KeyError
  | ImportError
  | ValueError
  | TypeError
  | IOError
  | ImproperlyConfigured configuration_message
  | ValidationError validation_message

datatype column = TextField_rendered | MarkupTextField_raw
  \<comment> \<open>\<^verbatim>\<open>TextField(editable=False, blank=True, null=True)\<close>, and the markup field itself\<close>

text \<open>
  What the code reads and writes of a model class: \<^verbatim>\<open>cls._meta.abstract\<close>, the
  columns registered through \<^verbatim>\<open>add_to_class\<close> and the parent's
  \<^verbatim>\<open>contribute_to_class\<close> (in registration order), the fields whose
  \<^verbatim>\<open>render_data\<close> is connected to \<^verbatim>\<open>pre_save\<close> with this class as sender, and the
  attribute names bound to a \<^verbatim>\<open>MarkupTextDescriptor\<close>. The descriptor bound to a name
  \<open>n\<close> is the one built by \<^verbatim>\<open>contribute_to_class(cls, n)\<close>: its field's name is \<open>n\<close>
  and its rendered field name is \<^verbatim>\<open>_rendered_field_name(n)\<close>.
\<close>

record model_class =
  meta_abstract :: bool
  meta_fields :: "(string \<times> column) list"
  pre_save_receivers :: "string list"
  descriptors :: "string list"

record model_instance =
  inst_class :: model_class
  inst_dict :: "string \<rightharpoonup> pyval"

type_synonym heap = "nat \<Rightarrow> model_instance"

definition rendered_field_name :: "string \<Rightarrow> string" where
  "rendered_field_name name = ''_'' @ name @ ''_rendered''"

definition dict_store :: "heap \<Rightarrow> nat \<Rightarrow> string \<Rightarrow> pyval \<Rightarrow> heap" where
  "dict_store h a k v = h(a := (h a)\<lparr>inst_dict := (inst_dict (h a))(k \<mapsto> v)\<rparr>)"

section \<open>The descriptor and the wrapper\<close>

text \<open>\<^verbatim>\<open>MarkupTextDescriptor.__get__\<close>; the instance is \<open>None\<close> when the attribute is read
  on the class.\<close>

definition descr_get :: "string \<Rightarrow> nat option \<Rightarrow> heap \<Rightarrow> exn + pyval" where
  "descr_get name inst h =
     (case inst of
        None \<Rightarrow> Inl AttributeError
      | Some a \<Rightarrow>
          (case inst_dict (h a) name of
             None \<Rightarrow> Inl KeyError
           | Some raw \<Rightarrow>
               if raw = PyNone then Inr PyNone
               else Inr (MarkupText a name (rendered_field_name name))))"

text \<open>
  \<^verbatim>\<open>getattr(instance, name)\<close>: a data descriptor of the class comes first, then the
  instance's \<^verbatim>\<open>__dict__\<close>. Other class attributes (methods, managers) are not modelled.
\<close>

definition getattr_inst :: "heap \<Rightarrow> nat \<Rightarrow> string \<Rightarrow> exn + pyval" where
  "getattr_inst h a name =
     (if name \<in> set (descriptors (inst_class (h a))) then descr_get name (Some a) h
      else (case inst_dict (h a) name of
              None \<Rightarrow> Inl AttributeError
            | Some v \<Rightarrow> Inr v))"

text \<open>\<^verbatim>\<open>MarkupText._get_raw\<close> and \<^verbatim>\<open>MarkupText._get_rendered\<close>. Django's
  \<^verbatim>\<open>mark_safe\<close> is a parameter.\<close>

definition get_raw :: "heap \<Rightarrow> nat \<Rightarrow> string \<Rightarrow> exn + pyval" where
  "get_raw h a field_name =
     (case inst_dict (h a) field_name of
        None \<Rightarrow> Inl KeyError
      | Some v \<Rightarrow> Inr v)"

definition get_rendered :: "(pyval \<Rightarrow> pyval) \<Rightarrow> heap \<Rightarrow> nat \<Rightarrow> string \<Rightarrow> exn + pyval" where
  "get_rendered mark_safe h a rendered_name =
     (case getattr_inst h a rendered_name of
        Inl e \<Rightarrow> Inl e
      | Inr r \<Rightarrow> Inr (mark_safe r))"

text \<open>The attributes \<^verbatim>\<open>value.raw\<close> and \<^verbatim>\<open>value.rendered\<close> of any value: only the
  wrapper has them.\<close>

definition attr_raw :: "heap \<Rightarrow> pyval \<Rightarrow> exn + pyval" where
  "attr_raw h val =
     (case val of
        MarkupText a fn rfn \<Rightarrow> get_raw h a fn
      | _ \<Rightarrow> Inl AttributeError)"

definition attr_rendered :: "(pyval \<Rightarrow> pyval) \<Rightarrow> heap \<Rightarrow> pyval \<Rightarrow> exn + pyval" where
  "attr_rendered mark_safe h val =
     (case val of
        MarkupText a fn rfn \<Rightarrow> get_rendered mark_safe h a rfn
      | _ \<Rightarrow> Inl AttributeError)"

definition isinstance_MarkupText :: "pyval \<Rightarrow> bool" where
  "isinstance_MarkupText val = (case val of MarkupText a fn rfn \<Rightarrow> True | _ \<Rightarrow> False)"

text \<open>\<^verbatim>\<open>class MarkupText(SafeData)\<close>: the wrapper is safe data, as are the marked
  strings.\<close>

definition isinstance_SafeData :: "pyval \<Rightarrow> bool" where
  "isinstance_SafeData val =
     (case val of MarkupText a fn rfn \<Rightarrow> True | SafeText s \<Rightarrow> True | _ \<Rightarrow> False)"

text \<open>\<^verbatim>\<open>MarkupText.__unicode__\<close>, which returns \<^verbatim>\<open>self.raw\<close>.\<close>

definition unicode :: "heap \<Rightarrow> pyval \<Rightarrow> exn + pyval" where
  "unicode h self = attr_raw h self"

text \<open>
  \<^verbatim>\<open>setattr(instance, name, value)\<close> and \<^verbatim>\<open>MarkupTextDescriptor.__set__\<close>. The
  descriptor writes the raw value first and reads \<^verbatim>\<open>value.rendered\<close> afterwards, then
  assigns the rendered attribute through \<^verbatim>\<open>setattr\<close> again, which may meet another
  descriptor. An exception leaves the function with no store.
\<close>

function setattr_inst :: "(pyval \<Rightarrow> pyval) \<Rightarrow> heap \<Rightarrow> nat \<Rightarrow> string \<Rightarrow> pyval \<Rightarrow> exn + heap"
  and descr_set :: "(pyval \<Rightarrow> pyval) \<Rightarrow> string \<Rightarrow> heap \<Rightarrow> nat \<Rightarrow> pyval \<Rightarrow> exn + heap"
where
  "setattr_inst mark_safe h a name val =
     (if name \<in> set (descriptors (inst_class (h a))) then descr_set mark_safe name h a val
      else Inr (dict_store h a name val))"
| "descr_set mark_safe name h a val =
     (if isinstance_MarkupText val then
        (case attr_raw h val of
           Inl e \<Rightarrow> Inl e
         | Inr raw \<Rightarrow>
             (case attr_rendered mark_safe (dict_store h a name raw) val of
                Inl e \<Rightarrow> Inl e
              | Inr rendered \<Rightarrow>
                  setattr_inst mark_safe (dict_store h a name raw) a
                    (rendered_field_name name) rendered))
      else Inr (dict_store h a name val))"
  by pat_completeness auto

lemma filter_length_mono:
  "(\<And>y. P y \<Longrightarrow> Q y) \<Longrightarrow> length (filter P xs) \<le> length (filter Q xs)"
  by (induction xs) auto

lemma filter_length_strict:
  "x \<in> set xs \<Longrightarrow> Q x \<Longrightarrow> \<not> P x \<Longrightarrow> (\<And>y. P y \<Longrightarrow> Q y)
   \<Longrightarrow> length (filter P xs) < length (filter Q xs)"
proof (induction xs)
  case Nil
  then show ?case by simp
next
  case (Cons z zs)
  have le: "length (filter P zs) \<le> length (filter Q zs)"
    using Cons.prems(4) by (rule filter_length_mono)
  show ?case
  proof (cases "x = z")
    case True
    with Cons.prems le show ?thesis by simp
  next
    case False
    with Cons have "length (filter P zs) < length (filter Q zs)" by simp
    with Cons.prems(4) show ?thesis by auto
  qed
qed

lemma inst_class_dict_store [simp]: "inst_class (dict_store h a k v b) = inst_class (h b)"
  by (simp add: dict_store_def)

lemma length_rendered_field_name [simp]:
  "length (rendered_field_name name) = length name + 10"
  by (simp add: rendered_field_name_def)

termination setattr_inst
proof (relation "measure (\<lambda>x. case x of
          Inl (ms, h, a, name, v) \<Rightarrow>
            2 * length (filter (\<lambda>d. length name \<le> length d) (descriptors (inst_class (h a)))) + 1
        | Inr (ms, name, h, a, v) \<Rightarrow>
            2 * length (filter (\<lambda>d. length name < length d) (descriptors (inst_class (h a)))) + 2)",
    goal_cases)
  case 1
  show ?case by simp
next
  case (2 mark_safe h a name val)
  have "length (filter (\<lambda>d. length name < length d) (descriptors (inst_class (h a))))
      < length (filter (\<lambda>d. length name \<le> length d) (descriptors (inst_class (h a))))"
    by (rule filter_length_strict [OF 2]) auto
  then show ?case by simp
next
  case (3 mark_safe name h a val raw rendered)
  have "length (filter (\<lambda>d. length (rendered_field_name name) \<le> length d)
                  (descriptors (inst_class (h a))))
      \<le> length (filter (\<lambda>d. length name < length d) (descriptors (inst_class (h a))))"
    by (rule filter_length_mono) simp
  then show ?case by simp
qed

declare setattr_inst.simps [simp del] descr_set.simps [simp del]

section \<open>MarkupTextField\<close>

record MarkupTextField =
  add_rendered_field :: bool
  fld_name :: "string option"
  fld_attname :: "string option"

text \<open>\<^verbatim>\<open>MarkupTextField.__init__\<close>, with the keyword \<^verbatim>\<open>no_rendered_field\<close> when it is
  given. The parent leaves the field unnamed until it is added to a class.\<close>

definition MarkupTextField_init :: "bool option \<Rightarrow> MarkupTextField" where
  "MarkupTextField_init no_rendered_field =
     \<lparr>add_rendered_field = (\<not> (case no_rendered_field of None \<Rightarrow> False | Some b \<Rightarrow> b)),
      fld_name = None, fld_attname = None\<rparr>"

text \<open>\<^verbatim>\<open>cls.add_to_class(name, field)\<close> for a plain column: the column is registered
  with the class.\<close>

definition add_to_class :: "model_class \<Rightarrow> string \<Rightarrow> column \<Rightarrow> model_class" where
  "add_to_class cls name col = cls\<lparr>meta_fields := meta_fields cls @ [(name, col)]\<rparr>"

text \<open>
  \<^verbatim>\<open>MarkupTextField.contribute_to_class\<close>. The parent's method names the field
  (\<^verbatim>\<open>name\<close> and \<^verbatim>\<open>attname\<close>, equal for a column that is no relation) and registers
  its column. The receiver connected to \<^verbatim>\<open>pre_save\<close> is the \<^verbatim>\<open>render_data\<close> of this
  field, recorded under the name the field has once the method returns.
\<close>

definition contribute_to_class ::
  "MarkupTextField \<Rightarrow> model_class \<Rightarrow> string \<Rightarrow> MarkupTextField \<times> model_class" where
  "contribute_to_class self cls name =
     (let cls1 = (if add_rendered_field self \<and> \<not> meta_abstract cls
                  then add_to_class cls (rendered_field_name name) TextField_rendered
                  else cls);
          cls2 = cls1\<lparr>pre_save_receivers := pre_save_receivers cls1 @ [name]\<rparr>;
          cls3 = add_to_class cls2 name MarkupTextField_raw;
          self' = self\<lparr>fld_name := Some name, fld_attname := Some name\<rparr>;
          cls4 = cls3\<lparr>descriptors := List.insert name (descriptors cls3)\<rparr>
      in (self', cls4))"

text \<open>\<^verbatim>\<open>MarkupTextField.get_db_prep_value\<close>: only \<^verbatim>\<open>AttributeError\<close> is caught.\<close>

definition get_db_prep_value :: "heap \<Rightarrow> pyval \<Rightarrow> exn + pyval" where
  "get_db_prep_value h val =
     (case attr_raw h val of
        Inl AttributeError \<Rightarrow> Inr val
      | Inl e \<Rightarrow> Inl e
      | Inr raw \<Rightarrow> Inr raw)"

text \<open>
  \<^verbatim>\<open>hasattr(value, 'raw')\<close> evaluates the property. A wrapper whose raw key is missing
  raises \<^verbatim>\<open>KeyError\<close> there, which Python 3 lets through (Python 2 answers
  \<^verbatim>\<open>False\<close>); \<^verbatim>\<open>render_data\<close> does not reach that case on a value it has just read
  through the descriptor.
\<close>

definition hasattr_raw :: "heap \<Rightarrow> pyval \<Rightarrow> exn + bool" where
  "hasattr_raw h val =
     (case attr_raw h val of
        Inl AttributeError \<Rightarrow> Inr False
      | Inl e \<Rightarrow> Inl e
      | Inr raw \<Rightarrow> Inr True)"

text \<open>
  \<^verbatim>\<open>MarkupTextField.render_data\<close>, the \<^verbatim>\<open>pre_save\<close> receiver. The configured
  \<^verbatim>\<open>render_func\<close> is a parameter and may raise. \<^verbatim>\<open>instance\<close> defaults to
  \<^verbatim>\<open>None\<close>, which has no attribute; a field that was never added to a class has no
  \<^verbatim>\<open>attname\<close>, so reading \<^verbatim>\<open>self.attname\<close> raises \<^verbatim>\<open>AttributeError\<close>.
\<close>

definition render_data ::
  "(pyval \<Rightarrow> pyval) \<Rightarrow> (pyval \<Rightarrow> exn + pyval) \<Rightarrow> MarkupTextField \<Rightarrow> heap \<Rightarrow> nat option
   \<Rightarrow> exn + heap" where
  "render_data mark_safe render_func self h inst =
     (case fld_attname self of
        None \<Rightarrow> Inl AttributeError
      | Some attname \<Rightarrow>
     (case inst of
        None \<Rightarrow> Inl AttributeError
      | Some a \<Rightarrow>
     (case getattr_inst h a attname of
        Inl e \<Rightarrow> Inl e
      | Inr val \<Rightarrow>
     (case hasattr_raw h val of
        Inl e \<Rightarrow> Inl e
      | Inr has_raw \<Rightarrow>
     (case (if has_raw
            then (case attr_raw h val of Inl e \<Rightarrow> Inl e | Inr raw \<Rightarrow> render_func raw)
            else Inr PyNone) of
        Inl e \<Rightarrow> Inl e
      | Inr rendered \<Rightarrow>
          setattr_inst mark_safe h a (rendered_field_name attname) rendered)))))"

section \<open>ExtendedImageField\<close>

record ExtendedImageField =
  width :: "int option"
  height :: "int option"
  min_width :: "int option"
  max_width :: "int option"
  min_height :: "int option"
  max_height :: "int option"
  max_upload_size :: "int option"

text \<open>\<^verbatim>\<open>kwargs.pop(key, default)\<close>, and the truth value of a setting that is \<^verbatim>\<open>None\<close> or
  a number.\<close>

definition pop :: "(string \<rightharpoonup> int option) \<Rightarrow> string \<Rightarrow> int option \<Rightarrow> int option" where
  "pop kwargs key dflt = (case kwargs key of None \<Rightarrow> dflt | Some v \<Rightarrow> v)"

definition truthy :: "int option \<Rightarrow> bool" where
  "truthy v = (case v of None \<Rightarrow> False | Some n \<Rightarrow> n \<noteq> 0)"

text \<open>The number a setting holds; read only where the setting is known to hold one.\<close>

definition num :: "int option \<Rightarrow> int" where
  "num v = (case v of None \<Rightarrow> 0 | Some n \<Rightarrow> n)"

definition ExtendedImageField_init :: "(string \<rightharpoonup> int option) \<Rightarrow> ExtendedImageField" where
  "ExtendedImageField_init kwargs =
     \<lparr>width = pop kwargs ''width'' None,
      height = pop kwargs ''height'' None,
      min_width = pop kwargs ''min_width'' None,
      max_width = pop kwargs ''max_width'' None,
      min_height = pop kwargs ''min_height'' None,
      max_height = pop kwargs ''max_height'' None,
      max_upload_size = pop kwargs ''max_upload_size'' (Some 0)\<rparr>"

text \<open>
  What \<^verbatim>\<open>clean\<close> reads of the cleaned data: the \<^verbatim>\<open>size\<close> attribute of
  \<^verbatim>\<open>data.file\<close> (\<open>None\<close> when the file object has no such attribute) and the pair that
  \<^verbatim>\<open>get_image_dimensions(data)\<close> returns, taken to be two integers.
\<close>

record image_data =
  file_size :: "int option"
  image_width :: int
  image_height :: int

text \<open>\<^verbatim>\<open>ExtendedImageField.clean\<close>; \<open>super_clean\<close> is the outcome of the parent's
  \<^verbatim>\<open>clean\<close>.\<close>

definition clean :: "ExtendedImageField \<Rightarrow> exn + image_data \<Rightarrow> exn + image_data" where
  "clean self super_clean =
     (case super_clean of
        Inl e \<Rightarrow> Inl e
      | Inr data \<Rightarrow>
          if truthy (max_upload_size self) \<and> file_size data \<noteq> None
             \<and> num (file_size data) > num (max_upload_size self)
          then Inl (ValidationError
                 (FileTooLarge (num (max_upload_size self)) (num (file_size data))))
          else if truthy (min_width self) \<and> truthy (max_width self)
             \<and> \<not> (num (min_width self) \<le> image_width data
                  \<and> image_width data \<le> num (max_width self))
          then Inl (ValidationError
                 (WidthNotAllowed (num (min_width self)) (num (max_width self))
                    (image_width data)))
          else if truthy (min_height self) \<and> truthy (max_height self)
             \<and> \<not> (num (min_height self) \<le> image_height data
                  \<and> image_height data \<le> num (max_height self))
          then Inl (ValidationError
                 (HeightNotAllowed (num (min_height self)) (num (max_height self))
                    (image_height data)))
          else Inr data)"

text \<open>
  \<^verbatim>\<open>os.path\<close> on a POSIX system: \<^verbatim>\<open>str.rfind\<close> of a character, the last component
  of \<^verbatim>\<open>path.split\<close>, and the first component of \<^verbatim>\<open>path.splitext\<close>, whose loop skips
  the dots that start the file name.
\<close>

definition rfind :: "char \<Rightarrow> string \<Rightarrow> int" where
  "rfind c p =
     (if c \<in> set p then int (length p) - 1 - int (length (takeWhile (\<lambda>x. x \<noteq> c) (rev p)))
      else - 1)"

definition path_split_tail :: "string \<Rightarrow> string" where
  "path_split_tail p = drop (nat (rfind CHR ''/'' p + 1)) p"

definition path_splitext_root :: "string \<Rightarrow> string" where
  "path_splitext_root p =
     (let sepIndex = rfind CHR ''/'' p;
          dotIndex = rfind CHR ''.'' p
      in if dotIndex > sepIndex
            \<and> list_ex (\<lambda>x. x \<noteq> CHR ''.'')
                 (take (nat dotIndex - nat (sepIndex + 1)) (drop (nat (sepIndex + 1)) p))
         then take (nat dotIndex) p
         else p)"

text \<open>
  The form data given to \<^verbatim>\<open>save_form_data\<close>: \<^verbatim>\<open>None\<close>, \<^verbatim>\<open>False\<close>, or a file with its
  \<^verbatim>\<open>name\<close> and the bytes that \<^verbatim>\<open>read()\<close> returns. A file object is true when its name
  is not empty. What reaches the parent's \<^verbatim>\<open>save_form_data\<close> is the data as given, or
  the object built by \<^verbatim>\<open>SimpleUploadedFile(filename, content)\<close>.
\<close>

datatype form_data = DataNone | DataFalse | DataFile string string

datatype saved_data = Given form_data | SimpleUploadedFile string string

definition data_truthy :: "form_data \<Rightarrow> bool" where
  "data_truthy data = (case data of DataFile name content \<Rightarrow> name \<noteq> [] | _ \<Rightarrow> False)"

text \<open>The imaging library is a parameter: \<^verbatim>\<open>Image.open\<close>, \<^verbatim>\<open>image.thumbnail\<close> with the
  antialias filter, and \<^verbatim>\<open>image.save\<close> in the PNG format, each of which may raise.\<close>

record 'img pil =
  Image_open :: "string \<Rightarrow> exn + 'img"
  thumbnail :: "'img \<Rightarrow> int \<times> int \<Rightarrow> exn + 'img"
  save_PNG :: "'img \<Rightarrow> exn + string"

definition resize_image :: "'img pil \<Rightarrow> string \<Rightarrow> int \<times> int \<Rightarrow> exn + string" where
  "resize_image lib data box =
     (case Image_open lib data of
        Inl e \<Rightarrow> Inl e
      | Inr img \<Rightarrow>
          (case thumbnail lib img box of
             Inl e \<Rightarrow> Inl e
           | Inr img' \<Rightarrow> save_PNG lib img'))"

text \<open>\<^verbatim>\<open>ExtendedImageField.save_form_data\<close>; the result is the data handed to the
  parent's method.\<close>

definition save_form_data :: "'img pil \<Rightarrow> ExtendedImageField \<Rightarrow> form_data \<Rightarrow> exn + saved_data" where
  "save_form_data lib self data =
     (case data of
        DataFile name content \<Rightarrow>
          if data_truthy data \<and> truthy (width self) \<and> truthy (height self)
          then (case resize_image lib content (num (width self), num (height self)) of
                  Inl e \<Rightarrow> Inl e
                | Inr content' \<Rightarrow>
                    Inr (SimpleUploadedFile
                           (path_splitext_root (path_split_tail name) @ ''.png'') content'))
          else Inr (Given data)
      | _ \<Rightarrow> Inr (Given data))"

section \<open>Loading the module\<close>

text \<open>
  \<^verbatim>\<open>dotted_path.rsplit('.', 1)\<close>, and \<^verbatim>\<open>_get_render_function\<close>. Unpacking fails with
  \<^verbatim>\<open>ValueError\<close> when the path has no dot. \<^verbatim>\<open>__import__\<close> is a parameter giving the
  attributes of the module or the exception it raises; \<^verbatim>\<open>curry(func, **kwargs)\<close> is the
  function paired with its keyword arguments.
\<close>

definition rsplit_dot :: "string \<Rightarrow> string list" where
  "rsplit_dot p =
     (if CHR ''.'' \<in> set p
      then [take (nat (rfind CHR ''.'' p)) p, drop (nat (rfind CHR ''.'' p) + 1) p]
      else [p])"

definition get_render_function ::
  "(string \<Rightarrow> exn + (string \<rightharpoonup> 'f)) \<Rightarrow> string \<Rightarrow> 'k \<Rightarrow> exn + ('f \<times> 'k)" where
  "get_render_function import dotted_path kwargs =
     (case rsplit_dot dotted_path of
        [module, func] \<Rightarrow>
          (case import module of
             Inl e \<Rightarrow> Inl e
           | Inr attrs \<Rightarrow>
               (case attrs func of
                  None \<Rightarrow> Inl AttributeError
                | Some f \<Rightarrow> Inr (f, kwargs)))
      | _ \<Rightarrow> Inl ValueError)"

text \<open>
  The statements run when the module is loaded. \<open>setting\<close> is
  \<^verbatim>\<open>machina_settings.MACHINA_MARKUP_LANGUAGE\<close>, a pair, or \<open>None\<close> when the settings
  have no such attribute. The result is the module's \<^verbatim>\<open>render_func\<close>.
\<close>

definition load_module ::
  "(string \<times> 'k) option \<Rightarrow> (string \<Rightarrow> exn + (string \<rightharpoonup> 'f)) \<Rightarrow> exn + ('f \<times> 'k)" where
  "load_module setting import =
     (case (case setting of
              None \<Rightarrow> Inl AttributeError
            | Some (dotted_path, kwargs) \<Rightarrow> get_render_function import dotted_path kwargs) of
        Inl ImportError \<Rightarrow> Inl (ImproperlyConfigured CouldNotImport)
      | Inl AttributeError \<Rightarrow> Inl (ImproperlyConfigured SettingRequired)
      | Inl e \<Rightarrow> Inl e
      | Inr render_func \<Rightarrow> Inr render_func)"

section \<open>Properties of the markup field\<close>

lemma rendered_field_name_neq: "rendered_field_name name \<noteq> name"
proof
  assume "rendered_field_name name = name"
  then have "length (rendered_field_name name) = length name" by simp
  then show False by simp
qed

lemma setattr_inst_plain:
  "name \<notin> set (descriptors (inst_class (h a))) \<or> \<not> isinstance_MarkupText v
   \<Longrightarrow> setattr_inst ms h a name v = Inr (dict_store h a name v)"
  by (auto simp: setattr_inst.simps descr_set.simps)

lemma inst_dict_dict_store:
  "inst_dict (dict_store h a k v b) k' =
     (if b = a \<and> k' = k then Some v else inst_dict (h b) k')"
  by (simp add: dict_store_def)

lemma getattr_descriptor:
  assumes "name \<in> set (descriptors (inst_class (h a)))"
      and "getattr_inst h a name = Inr v"
  shows "attr_raw h v = Inl AttributeError
         \<or> (\<exists>raw. attr_raw h v = Inr raw \<and> inst_dict (h a) name = Some raw \<and> raw \<noteq> PyNone)"
  using assms
  by (auto simp: getattr_inst_def descr_get_def attr_raw_def get_raw_def
           split: option.splits if_splits)

lemma render_data_raw:
  assumes "fld_attname self = Some name"
      and "getattr_inst h a name = Inr v"
      and "attr_raw h v = Inr raw"
      and "render_func raw = Inr r"
      and "rendered_field_name name \<notin> set (descriptors (inst_class (h a)))
           \<or> \<not> isinstance_MarkupText r"
  shows "render_data ms render_func self h (Some a)
         = Inr (dict_store h a (rendered_field_name name) r)"
  using assms
  by (simp add: render_data_def hasattr_raw_def setattr_inst_plain)

lemma render_data_none:
  assumes "fld_attname self = Some name"
      and "getattr_inst h a name = Inr v"
      and "attr_raw h v = Inl AttributeError"
  shows "render_data ms render_func self h (Some a)
         = Inr (dict_store h a (rendered_field_name name) PyNone)"
  using assms
  by (simp add: render_data_def hasattr_raw_def setattr_inst_plain isinstance_MarkupText_def)

lemma contribute_to_class_connects:
  "contribute_to_class self cls name = (self', cls') \<Longrightarrow>
     fld_attname self' = Some name \<and> fld_name self' = Some name
     \<and> name \<in> set (pre_save_receivers cls') \<and> name \<in> set (descriptors cls')"
  by (auto simp: contribute_to_class_def Let_def add_to_class_def)

lemma get_rendered_dict_store:
  "a' \<noteq> a \<or> rfn \<noteq> name \<Longrightarrow>
     get_rendered ms (dict_store h a name raw) a' rfn = get_rendered ms h a' rfn"
  by (auto simp: get_rendered_def getattr_inst_def descr_get_def inst_dict_dict_store)

lemma descr_set_plain:
  "\<not> isinstance_MarkupText v \<Longrightarrow> descr_set ms name h a v = Inr (dict_store h a name v)"
  by (simp add: descr_set.simps)

lemma setattr_inst_wrapper:
  assumes "name \<in> set (descriptors (inst_class (h a)))"
      and "get_raw h a' fn = Inr raw"
      and "get_rendered ms (dict_store h a name raw) a' rfn = Inr r"
      and "rendered_field_name name \<notin> set (descriptors (inst_class (h a)))
           \<or> \<not> isinstance_MarkupText r"
  shows "setattr_inst ms h a name (MarkupText a' fn rfn)
         = Inr (dict_store (dict_store h a name raw) a (rendered_field_name name) r)"
proof -
  have "setattr_inst ms (dict_store h a name raw) a (rendered_field_name name) r
        = Inr (dict_store (dict_store h a name raw) a (rendered_field_name name) r)"
    using assms(4) by (intro setattr_inst_plain) simp
  with assms(1-3) show ?thesis
    by (simp add: setattr_inst.simps [of ms h a name] descr_set.simps [of ms name h a]
          isinstance_MarkupText_def attr_raw_def attr_rendered_def)
qed

text \<open>
  Claim C1. The \<^verbatim>\<open>pre_save\<close> receiver \<^verbatim>\<open>render_data\<close> of a named field reads the field's
  value from the instance. When that value has a \<^verbatim>\<open>raw\<close> attribute and the render
  function returns on it, the attribute \<^verbatim>\<open>_<name>_rendered\<close> holds the render function's
  result afterwards; when the value has no \<^verbatim>\<open>raw\<close> attribute it holds \<^verbatim>\<open>None\<close>. On an
  instance whose class binds the name to the descriptor these are the only two cases, and
  the raw attribute is the value stored under the field's name. \<^verbatim>\<open>contribute_to_class\<close>
  connects the receiver, names the field and binds the descriptor.
\<close>

theorem render_data_before_save:
  assumes "fld_attname self = Some name"
      and "getattr_inst h a name = Inr val"
  shows "(attr_raw h val = Inr raw \<longrightarrow> render_func raw = Inr r \<longrightarrow>
            (rendered_field_name name \<notin> set (descriptors (inst_class (h a)))
             \<or> \<not> isinstance_MarkupText r) \<longrightarrow>
            (\<exists>h'. render_data ms render_func self h (Some a) = Inr h'
                  \<and> inst_dict (h' a) (rendered_field_name name) = Some r))
       \<and> (attr_raw h val = Inl AttributeError \<longrightarrow>
            (\<exists>h'. render_data ms render_func self h (Some a) = Inr h'
                  \<and> inst_dict (h' a) (rendered_field_name name) = Some PyNone))
       \<and> (name \<in> set (descriptors (inst_class (h a))) \<longrightarrow>
            attr_raw h val = Inl AttributeError
            \<or> (\<exists>raw. attr_raw h val = Inr raw \<and> inst_dict (h a) name = Some raw))
       \<and> (name \<in> set (pre_save_receivers (snd (contribute_to_class fld cls name)))
            \<and> fld_attname (fst (contribute_to_class fld cls name)) = Some name
            \<and> name \<in> set (descriptors (snd (contribute_to_class fld cls name))))"
proof (intro conjI impI)
  assume "attr_raw h val = Inr raw" "render_func raw = Inr r"
    "rendered_field_name name \<notin> set (descriptors (inst_class (h a)))
     \<or> \<not> isinstance_MarkupText r"
  with assms have "render_data ms render_func self h (Some a)
      = Inr (dict_store h a (rendered_field_name name) r)"
    by (rule render_data_raw)
  then show "\<exists>h'. render_data ms render_func self h (Some a) = Inr h'
      \<and> inst_dict (h' a) (rendered_field_name name) = Some r"
    by (simp add: inst_dict_dict_store)
next
  assume "attr_raw h val = Inl AttributeError"
  with assms have "render_data ms render_func self h (Some a)
      = Inr (dict_store h a (rendered_field_name name) PyNone)"
    by (rule render_data_none)
  then show "\<exists>h'. render_data ms render_func self h (Some a) = Inr h'
      \<and> inst_dict (h' a) (rendered_field_name name) = Some PyNone"
    by (simp add: inst_dict_dict_store)
next
  assume "name \<in> set (descriptors (inst_class (h a)))"
  from getattr_descriptor [OF this assms(2)]
  show "attr_raw h val = Inl AttributeError
      \<or> (\<exists>raw. attr_raw h val = Inr raw \<and> inst_dict (h a) name = Some raw)"
    by blast
next
  show "name \<in> set (pre_save_receivers (snd (contribute_to_class fld cls name)))"
    using contribute_to_class_connects [of fld cls name] by (cases "contribute_to_class fld cls name") simp
  show "fld_attname (fst (contribute_to_class fld cls name)) = Some name"
    using contribute_to_class_connects [of fld cls name] by (cases "contribute_to_class fld cls name") simp
  show "name \<in> set (descriptors (snd (contribute_to_class fld cls name)))"
    using contribute_to_class_connects [of fld cls name] by (cases "contribute_to_class fld cls name") simp
qed

theorem render_data_before_save_witness:
  "(\<exists>h'. render_data (\<lambda>v. case v of PyStr s \<Rightarrow> SafeText s | _ \<Rightarrow> v)
            (\<lambda>v. case v of PyStr s \<Rightarrow> Inr (PyStr (''<p>'' @ s @ ''</p>'')) | _ \<Rightarrow> Inl TypeError)
            \<lparr>add_rendered_field = True, fld_name = Some ''body'', fld_attname = Some ''body''\<rparr>
            (\<lambda>_. \<lparr>inst_class = \<lparr>meta_abstract = False, meta_fields = [],
                                 pre_save_receivers = [''body''], descriptors = [''body'']\<rparr>,
                   inst_dict = [''body'' \<mapsto> PyStr ''hi'', ''_body_rendered'' \<mapsto> PyNone]\<rparr>)
            (Some 0) = Inr h'
        \<and> inst_dict (h' 0) ''_body_rendered'' = Some (PyStr ''<p>hi</p>''))
   \<and> (\<exists>h'. render_data (\<lambda>v. case v of PyStr s \<Rightarrow> SafeText s | _ \<Rightarrow> v)
            (\<lambda>v. case v of PyStr s \<Rightarrow> Inr (PyStr (''<p>'' @ s @ ''</p>'')) | _ \<Rightarrow> Inl TypeError)
            \<lparr>add_rendered_field = True, fld_name = Some ''body'', fld_attname = Some ''body''\<rparr>
            (\<lambda>_. \<lparr>inst_class = \<lparr>meta_abstract = False, meta_fields = [],
                                 pre_save_receivers = [''body''], descriptors = [''body'']\<rparr>,
                   inst_dict = [''body'' \<mapsto> PyNone, ''_body_rendered'' \<mapsto> PyStr ''old'']\<rparr>)
            (Some 0) = Inr h'
        \<and> inst_dict (h' 0) ''_body_rendered'' = Some PyNone)"
proof -
  let ?ms = "\<lambda>v. case v of PyStr s \<Rightarrow> SafeText s | _ \<Rightarrow> v"
  let ?rf = "\<lambda>v. case v of PyStr s \<Rightarrow> Inr (PyStr (''<p>'' @ s @ ''</p>'')) | _ \<Rightarrow> Inl TypeError"
  let ?self = "\<lparr>add_rendered_field = True, fld_name = Some ''body'', fld_attname = Some ''body''\<rparr>"
  let ?cls = "\<lparr>meta_abstract = False, meta_fields = [],
                pre_save_receivers = [''body''], descriptors = [''body'']\<rparr>"
  let ?h1 = "\<lambda>_::nat. \<lparr>inst_class = ?cls,
                inst_dict = [''body'' \<mapsto> PyStr ''hi'', ''_body_rendered'' \<mapsto> PyNone]\<rparr>"
  let ?h2 = "\<lambda>_::nat. \<lparr>inst_class = ?cls,
                inst_dict = [''body'' \<mapsto> PyNone, ''_body_rendered'' \<mapsto> PyStr ''old'']\<rparr>"
  have a: "fld_attname ?self = Some ''body''" by simp
  have g1: "getattr_inst ?h1 0 ''body'' = Inr (MarkupText 0 ''body'' ''_body_rendered'')"
    by (simp add: getattr_inst_def descr_get_def rendered_field_name_def)
  have g2: "getattr_inst ?h2 0 ''body'' = Inr PyNone"
    by (simp add: getattr_inst_def descr_get_def)
  have r1: "attr_raw ?h1 (MarkupText 0 ''body'' ''_body_rendered'') = Inr (PyStr ''hi'')"
    by (simp add: attr_raw_def get_raw_def)
  have r2: "attr_raw ?h2 PyNone = Inl AttributeError"
    by (simp add: attr_raw_def)
  have "\<exists>h'. render_data ?ms ?rf ?self ?h1 (Some 0) = Inr h'
        \<and> inst_dict (h' 0) ''_body_rendered'' = Some (PyStr ''<p>hi</p>'')"
    using render_data_before_save [OF a g1, where render_func = ?rf and ms = ?ms
        and raw = "PyStr ''hi''" and r = "PyStr ''<p>hi</p>''"] r1
    by (simp add: rendered_field_name_def isinstance_MarkupText_def)
  moreover have "\<exists>h'. render_data ?ms ?rf ?self ?h2 (Some 0) = Inr h'
        \<and> inst_dict (h' 0) ''_body_rendered'' = Some PyNone"
    using render_data_before_save [OF a g2, where render_func = ?rf and ms = ?ms] r2
    by (simp add: rendered_field_name_def)
  ultimately show ?thesis by blast
qed

text \<open>
  Claim C3. The value that reading the attribute returns, when it is not \<^verbatim>\<open>None\<close>, is an
  instance of \<^verbatim>\<open>SafeData\<close>: it is the wrapper over the instance that was read. Its
  \<^verbatim>\<open>rendered\<close> property is \<^verbatim>\<open>mark_safe\<close> of the stored rendered value (the rendered
  attribute being a plain column), and \<^verbatim>\<open>__unicode__\<close> returns the stored raw value.
\<close>

theorem wrapper_exposes_raw_and_rendered:
  assumes "descr_get name (Some a) h = Inr w"
      and "w \<noteq> PyNone"
  shows "isinstance_SafeData w
       \<and> w = MarkupText a name (rendered_field_name name)
       \<and> (rendered_field_name name \<notin> set (descriptors (inst_class (h a))) \<longrightarrow>
              inst_dict (h a) (rendered_field_name name) = Some r \<longrightarrow>
              attr_rendered mark_safe h w = Inr (mark_safe r))
       \<and> (\<exists>raw. inst_dict (h a) name = Some raw \<and> unicode h w = Inr raw)"
  using assms
  by (auto simp: descr_get_def isinstance_SafeData_def attr_rendered_def get_rendered_def
        getattr_inst_def unicode_def attr_raw_def get_raw_def
      split: option.splits if_splits)

theorem wrapper_exposes_raw_and_rendered_witness:
  "isinstance_SafeData (MarkupText 0 ''body'' ''_body_rendered'')
   \<and> attr_rendered (\<lambda>v. case v of PyStr s \<Rightarrow> SafeText s | _ \<Rightarrow> v)
        (\<lambda>_. \<lparr>inst_class = \<lparr>meta_abstract = False, meta_fields = [],
                             pre_save_receivers = [''body''], descriptors = [''body'']\<rparr>,
               inst_dict = [''body'' \<mapsto> PyStr ''hi'', ''_body_rendered'' \<mapsto> PyStr ''<p>hi</p>'']\<rparr>)
        (MarkupText 0 ''body'' ''_body_rendered'') = Inr (SafeText ''<p>hi</p>'')
   \<and> unicode
        (\<lambda>_. \<lparr>inst_class = \<lparr>meta_abstract = False, meta_fields = [],
                             pre_save_receivers = [''body''], descriptors = [''body'']\<rparr>,
               inst_dict = [''body'' \<mapsto> PyStr ''hi'', ''_body_rendered'' \<mapsto> PyStr ''<p>hi</p>'']\<rparr>)
        (MarkupText 0 ''body'' ''_body_rendered'') = Inr (PyStr ''hi'')"
proof -
  let ?ms = "\<lambda>v. case v of PyStr s \<Rightarrow> SafeText s | _ \<Rightarrow> v"
  let ?h = "\<lambda>_::nat. \<lparr>inst_class = \<lparr>meta_abstract = False, meta_fields = [],
                             pre_save_receivers = [''body''], descriptors = [''body'']\<rparr>,
               inst_dict = [''body'' \<mapsto> PyStr ''hi'', ''_body_rendered'' \<mapsto> PyStr ''<p>hi</p>'']\<rparr>"
  have g: "descr_get ''body'' (Some 0) ?h = Inr (MarkupText 0 ''body'' ''_body_rendered'')"
    by (simp add: descr_get_def rendered_field_name_def)
  have n: "MarkupText 0 ''body'' ''_body_rendered'' \<noteq> PyNone" by simp
  show ?thesis
    using wrapper_exposes_raw_and_rendered [OF g n, where mark_safe = ?ms
        and r = "PyStr ''<p>hi</p>''"]
    by (simp add: rendered_field_name_def)
qed

text \<open>
  Claim C9. Assigning to an attribute bound to the descriptor a value that is no wrapper
  stores it as the raw value and changes nothing else, so the stored rendered value stays
  as it was (stale until \<^verbatim>\<open>render_data\<close> runs). Assigning a wrapper stores the wrapper's
  raw value and, as the rendered value, what the wrapper's \<^verbatim>\<open>rendered\<close> property returns
  once the raw value is written; that is what it returned before, unless the wrapper's
  rendered name on this very instance is the name assigned to.
\<close>

theorem assignment_updates_raw_only:
  assumes "name \<in> set (descriptors (inst_class (h a)))"
  shows "(\<not> isinstance_MarkupText v \<longrightarrow>
            (\<exists>h'. setattr_inst ms h a name v = Inr h'
                \<and> inst_dict (h' a) name = Some v
                \<and> inst_dict (h' a) (rendered_field_name name)
                    = inst_dict (h a) (rendered_field_name name)
                \<and> (\<forall>b k. b \<noteq> a \<or> k \<noteq> name \<longrightarrow> inst_dict (h' b) k = inst_dict (h b) k)))
       \<and> (get_raw h a' fn = Inr raw \<longrightarrow>
          get_rendered ms (dict_store h a name raw) a' rfn = Inr r \<longrightarrow>
          (rendered_field_name name \<notin> set (descriptors (inst_class (h a)))
           \<or> \<not> isinstance_MarkupText r) \<longrightarrow>
            (\<exists>h'. setattr_inst ms h a name (MarkupText a' fn rfn) = Inr h'
                \<and> inst_dict (h' a) name = Some raw
                \<and> inst_dict (h' a) (rendered_field_name name) = Some r))
       \<and> (a' \<noteq> a \<or> rfn \<noteq> name \<longrightarrow>
            get_rendered ms (dict_store h a name raw) a' rfn = get_rendered ms h a' rfn)"
proof (intro conjI impI)
  assume "\<not> isinstance_MarkupText v"
  then have "setattr_inst ms h a name v = Inr (dict_store h a name v)"
    by (simp add: setattr_inst_plain)
  then show "\<exists>h'. setattr_inst ms h a name v = Inr h'
      \<and> inst_dict (h' a) name = Some v
      \<and> inst_dict (h' a) (rendered_field_name name)
          = inst_dict (h a) (rendered_field_name name)
      \<and> (\<forall>b k. b \<noteq> a \<or> k \<noteq> name \<longrightarrow> inst_dict (h' b) k = inst_dict (h b) k)"
    by (auto simp: inst_dict_dict_store rendered_field_name_neq)
next
  assume "get_raw h a' fn = Inr raw"
    "get_rendered ms (dict_store h a name raw) a' rfn = Inr r"
    "rendered_field_name name \<notin> set (descriptors (inst_class (h a)))
     \<or> \<not> isinstance_MarkupText r"
  with assms have "setattr_inst ms h a name (MarkupText a' fn rfn)
      = Inr (dict_store (dict_store h a name raw) a (rendered_field_name name) r)"
    by (rule setattr_inst_wrapper)
  then show "\<exists>h'. setattr_inst ms h a name (MarkupText a' fn rfn) = Inr h'
      \<and> inst_dict (h' a) name = Some raw
      \<and> inst_dict (h' a) (rendered_field_name name) = Some r"
    by (simp add: inst_dict_dict_store rendered_field_name_neq [symmetric])
next
  assume "a' \<noteq> a \<or> rfn \<noteq> name"
  then show "get_rendered ms (dict_store h a name raw) a' rfn = get_rendered ms h a' rfn"
    by (rule get_rendered_dict_store)
qed

text \<open>
  Claim C10. Read on the class, the descriptor raises \<^verbatim>\<open>AttributeError\<close>. Read on an
  instance, it returns \<^verbatim>\<open>None\<close> when the stored raw value is \<^verbatim>\<open>None\<close>, and otherwise
  a wrapper that holds the instance itself: its raw value in any later store is what that
  store holds. \<^verbatim>\<open>get_db_prep_value\<close> returns the raw attribute of a value that has one
  and returns a value without the attribute unchanged.
\<close>

theorem descriptor_read_and_db_value:
  "descr_get name None h = Inl AttributeError
   \<and> (inst_dict (h a) name = Some PyNone \<longrightarrow> descr_get name (Some a) h = Inr PyNone)
   \<and> (inst_dict (h a) name = Some raw \<longrightarrow> raw \<noteq> PyNone \<longrightarrow>
        descr_get name (Some a) h = Inr (MarkupText a name (rendered_field_name name))
        \<and> attr_raw h' (MarkupText a name (rendered_field_name name)) = get_raw h' a name)
   \<and> (attr_raw h val = Inr v \<longrightarrow> get_db_prep_value h val = Inr v)
   \<and> (attr_raw h val = Inl AttributeError \<longrightarrow> get_db_prep_value h val = Inr val)"
  by (simp add: descr_get_def attr_raw_def get_db_prep_value_def)

text \<open>
  Claim C2, as amended. \<^verbatim>\<open>contribute_to_class\<close> registers the raw column under the
  field's name; before it, it registers the rendered column \<^verbatim>\<open>_<name>_rendered\<close> exactly
  when the field was not built with \<^verbatim>\<open>no_rendered_field\<close> and the class is not abstract.
\<close>

theorem contribute_to_class_columns:
  "meta_fields (snd (contribute_to_class self cls name)) =
     meta_fields cls
     @ (if add_rendered_field self \<and> \<not> meta_abstract cls
        then [(rendered_field_name name, TextField_rendered)] else [])
     @ [(name, MarkupTextField_raw)]"
  by (simp add: contribute_to_class_def Let_def add_to_class_def)

text \<open>
  Claim C2 as stated fails: a field built with \<^verbatim>\<open>no_rendered_field=True\<close> contributes
  one column only.
\<close>

theorem contribute_to_class_one_column:
  "meta_fields (snd (contribute_to_class (MarkupTextField_init (Some True))
      \<lparr>meta_abstract = False, meta_fields = [], pre_save_receivers = [], descriptors = []\<rparr>
      ''body'')) = [(''body'', MarkupTextField_raw)]"
  by (simp add: contribute_to_class_def Let_def add_to_class_def MarkupTextField_init_def)

theorem assignment_updates_raw_only_witness:
  "(\<exists>h'. setattr_inst (\<lambda>v. case v of PyStr s \<Rightarrow> SafeText s | _ \<Rightarrow> v)
           (\<lambda>i. \<lparr>inst_class = \<lparr>meta_abstract = False, meta_fields = [],
                                pre_save_receivers = [''body''], descriptors = [''body'']\<rparr>,
                  inst_dict = (if i = 0
                     then [''body'' \<mapsto> PyStr ''hi'', ''_body_rendered'' \<mapsto> PyStr ''<p>hi</p>'']
                     else [''body'' \<mapsto> PyStr ''yo'', ''_body_rendered'' \<mapsto> PyStr ''<p>yo</p>''])\<rparr>)
           0 ''body'' (PyStr ''new'') = Inr h'
       \<and> inst_dict (h' 0) ''body'' = Some (PyStr ''new'')
       \<and> inst_dict (h' 0) ''_body_rendered'' = Some (PyStr ''<p>hi</p>''))
   \<and> (\<exists>h'. setattr_inst (\<lambda>v. case v of PyStr s \<Rightarrow> SafeText s | _ \<Rightarrow> v)
           (\<lambda>i. \<lparr>inst_class = \<lparr>meta_abstract = False, meta_fields = [],
                                pre_save_receivers = [''body''], descriptors = [''body'']\<rparr>,
                  inst_dict = (if i = 0
                     then [''body'' \<mapsto> PyStr ''hi'', ''_body_rendered'' \<mapsto> PyStr ''<p>hi</p>'']
                     else [''body'' \<mapsto> PyStr ''yo'', ''_body_rendered'' \<mapsto> PyStr ''<p>yo</p>''])\<rparr>)
           0 ''body'' (MarkupText 1 ''body'' ''_body_rendered'') = Inr h'
       \<and> inst_dict (h' 0) ''body'' = Some (PyStr ''yo'')
       \<and> inst_dict (h' 0) ''_body_rendered'' = Some (SafeText ''<p>yo</p>''))"
proof -
  let ?ms = "\<lambda>v. case v of PyStr s \<Rightarrow> SafeText s | _ \<Rightarrow> v"
  let ?h = "\<lambda>i::nat. \<lparr>inst_class = \<lparr>meta_abstract = False, meta_fields = [],
                                pre_save_receivers = [''body''], descriptors = [''body'']\<rparr>,
                  inst_dict = (if i = 0
                     then [''body'' \<mapsto> PyStr ''hi'', ''_body_rendered'' \<mapsto> PyStr ''<p>hi</p>'']
                     else [''body'' \<mapsto> PyStr ''yo'', ''_body_rendered'' \<mapsto> PyStr ''<p>yo</p>''])\<rparr>"
  have d: "''body'' \<in> set (descriptors (inst_class (?h 0)))" by simp
  have raw: "get_raw ?h 1 ''body'' = Inr (PyStr ''yo'')"
    by (simp add: get_raw_def)
  have rendered: "get_rendered ?ms (dict_store ?h 0 ''body'' (PyStr ''yo'')) 1 ''_body_rendered''
      = Inr (SafeText ''<p>yo</p>'')"
    by (simp add: get_rendered_def getattr_inst_def dict_store_def)
  have plain: "\<not> isinstance_MarkupText (PyStr ''new'')"
    by (simp add: isinstance_MarkupText_def)
  have safe: "\<not> isinstance_MarkupText (SafeText ''<p>yo</p>'')"
    by (simp add: isinstance_MarkupText_def)
  note at_body = assignment_updates_raw_only [where h = ?h and a = 0 and name = "''body''"
        and ms = ?ms and v = "PyStr ''new''" and a' = 1 and fn = "''body''"
        and rfn = "''_body_rendered''" and raw = "PyStr ''yo''"
        and r = "SafeText ''<p>yo</p>''", OF d]
  from at_body plain have "\<exists>h'. setattr_inst ?ms ?h 0 ''body'' (PyStr ''new'') = Inr h'
       \<and> inst_dict (h' 0) ''body'' = Some (PyStr ''new'')
       \<and> inst_dict (h' 0) (rendered_field_name ''body'') = Some (PyStr ''<p>hi</p>'')"
    by (elim conjE) (simp add: rendered_field_name_def, blast)
  moreover from at_body raw rendered safe
  have "\<exists>h'. setattr_inst ?ms ?h 0 ''body'' (MarkupText 1 ''body'' ''_body_rendered'') = Inr h'
       \<and> inst_dict (h' 0) ''body'' = Some (PyStr ''yo'')
       \<and> inst_dict (h' 0) (rendered_field_name ''body'') = Some (SafeText ''<p>yo</p>'')"
    by blast
  ultimately show ?thesis
    by (simp add: rendered_field_name_def)
qed

theorem descriptor_read_and_db_value_witness:
  "descr_get ''body'' (Some 0)
      (\<lambda>_. \<lparr>inst_class = \<lparr>meta_abstract = False, meta_fields = [],
                           pre_save_receivers = [''body''], descriptors = [''body'']\<rparr>,
             inst_dict = [''body'' \<mapsto> PyNone]\<rparr>) = Inr PyNone
   \<and> descr_get ''body'' (Some 0)
      (\<lambda>_. \<lparr>inst_class = \<lparr>meta_abstract = False, meta_fields = [],
                           pre_save_receivers = [''body''], descriptors = [''body'']\<rparr>,
             inst_dict = [''body'' \<mapsto> PyStr ''hi'']\<rparr>)
       = Inr (MarkupText 0 ''body'' ''_body_rendered'')
   \<and> get_db_prep_value
      (\<lambda>_. \<lparr>inst_class = \<lparr>meta_abstract = False, meta_fields = [],
                           pre_save_receivers = [''body''], descriptors = [''body'']\<rparr>,
             inst_dict = [''body'' \<mapsto> PyStr ''hi'']\<rparr>)
      (MarkupText 0 ''body'' ''_body_rendered'') = Inr (PyStr ''hi'')
   \<and> get_db_prep_value
      (\<lambda>_. \<lparr>inst_class = \<lparr>meta_abstract = False, meta_fields = [],
                           pre_save_receivers = [''body''], descriptors = [''body'']\<rparr>,
             inst_dict = [''body'' \<mapsto> PyStr ''hi'']\<rparr>)
      (PyStr ''plain'') = Inr (PyStr ''plain'')"
proof -
  let ?cls = "\<lparr>meta_abstract = False, meta_fields = [],
                pre_save_receivers = [''body''], descriptors = [''body'']\<rparr>"
  let ?h0 = "\<lambda>_::nat. \<lparr>inst_class = ?cls, inst_dict = [''body'' \<mapsto> PyNone]\<rparr>"
  let ?h1 = "\<lambda>_::nat. \<lparr>inst_class = ?cls, inst_dict = [''body'' \<mapsto> PyStr ''hi'']\<rparr>"
  have r1: "attr_raw ?h1 (MarkupText 0 ''body'' ''_body_rendered'') = Inr (PyStr ''hi'')"
    by (simp add: attr_raw_def get_raw_def)
  have r2: "attr_raw ?h1 (PyStr ''plain'') = Inl AttributeError"
    by (simp add: attr_raw_def)
  show ?thesis
    using descriptor_read_and_db_value [where name = "''body''" and h = ?h0 and a = 0]
      descriptor_read_and_db_value [where name = "''body''" and h = ?h1 and a = 0
        and raw = "PyStr ''hi''" and val = "MarkupText 0 ''body'' ''_body_rendered''"
        and v = "PyStr ''hi''"]
      descriptor_read_and_db_value [where h = ?h1 and val = "PyStr ''plain''"]
      r1 r2
    by (simp add: rendered_field_name_def)
qed

theorem contribute_to_class_columns_witness:
  "meta_fields (snd (contribute_to_class (MarkupTextField_init None)
      \<lparr>meta_abstract = False, meta_fields = [], pre_save_receivers = [], descriptors = []\<rparr>
      ''body'')) = [(''_body_rendered'', TextField_rendered), (''body'', MarkupTextField_raw)]
   \<and> meta_fields (snd (contribute_to_class (MarkupTextField_init None)
      \<lparr>meta_abstract = True, meta_fields = [], pre_save_receivers = [], descriptors = []\<rparr>
      ''body'')) = [(''body'', MarkupTextField_raw)]"
  using contribute_to_class_columns [of "MarkupTextField_init None"
      "\<lparr>meta_abstract = False, meta_fields = [], pre_save_receivers = [], descriptors = []\<rparr>"
      "''body''"]
    contribute_to_class_columns [of "MarkupTextField_init None"
      "\<lparr>meta_abstract = True, meta_fields = [], pre_save_receivers = [], descriptors = []\<rparr>"
      "''body''"]
  by (simp add: MarkupTextField_init_def rendered_field_name_def)

section \<open>Properties of the image field and of module loading\<close>

lemma truthy_unset: "(\<not> truthy v) = (v = None \<or> v = Some 0)"
  by (cases v) (simp_all add: truthy_def)

text \<open>
  Claim C4. With a positive \<^verbatim>\<open>max_upload_size\<close> and a file object that has a
  \<^verbatim>\<open>size\<close>, \<^verbatim>\<open>clean\<close> raises the validation error of the size check when the size is
  greater than the limit, and does not raise that error when the size is at most the limit.
\<close>

theorem clean_upload_size:
  assumes "max_upload_size self = Some limit"
      and "0 < limit"
      and "file_size data = Some s"
  shows "(limit < s \<longrightarrow> clean self (Inr data) = Inl (ValidationError (FileTooLarge limit s)))
       \<and> (s \<le> limit \<longrightarrow> clean self (Inr data) \<noteq> Inl (ValidationError (FileTooLarge l s')))"
  using assms by (simp add: clean_def truthy_def num_def)

theorem clean_upload_size_witness:
  "clean \<lparr>width = None, height = None, min_width = None, max_width = None,
          min_height = None, max_height = None, max_upload_size = Some 10\<rparr>
     (Inr \<lparr>file_size = Some 11, image_width = 5, image_height = 5\<rparr>)
     = Inl (ValidationError (FileTooLarge 10 11))
   \<and> clean \<lparr>width = None, height = None, min_width = None, max_width = None,
          min_height = None, max_height = None, max_upload_size = Some 10\<rparr>
     (Inr \<lparr>file_size = Some 10, image_width = 5, image_height = 5\<rparr>)
     \<noteq> Inl (ValidationError (FileTooLarge 10 10))"
  using clean_upload_size [of "\<lparr>width = None, height = None, min_width = None, max_width = None,
          min_height = None, max_height = None, max_upload_size = Some 10\<rparr>" 10
          "\<lparr>file_size = Some 11, image_width = 5, image_height = 5\<rparr>" 11]
    clean_upload_size [of "\<lparr>width = None, height = None, min_width = None, max_width = None,
          min_height = None, max_height = None, max_upload_size = Some 10\<rparr>" 10
          "\<lparr>file_size = Some 10, image_width = 5, image_height = 5\<rparr>" 10 10 10]
  by simp

text \<open>
  Claim C5, as amended. When both ends of the width range are set and not zero and the
  image's width is outside the range, \<^verbatim>\<open>clean\<close> raises a validation error; likewise for
  the height. When the upload-size check does not fail and the width and the height lie in
  each range that is so configured, \<^verbatim>\<open>clean\<close> returns the data unchanged.
\<close>

theorem clean_dimensions:
  "(truthy (min_width self) \<and> truthy (max_width self)
      \<and> \<not> (num (min_width self) \<le> image_width data \<and> image_width data \<le> num (max_width self))
      \<longrightarrow> (\<exists>m. clean self (Inr data) = Inl (ValidationError m)))
   \<and> (truthy (min_height self) \<and> truthy (max_height self)
      \<and> \<not> (num (min_height self) \<le> image_height data \<and> image_height data \<le> num (max_height self))
      \<longrightarrow> (\<exists>m. clean self (Inr data) = Inl (ValidationError m)))
   \<and> (\<not> (truthy (max_upload_size self) \<and> file_size data \<noteq> None
           \<and> num (file_size data) > num (max_upload_size self)) \<longrightarrow>
       (truthy (min_width self) \<and> truthy (max_width self) \<longrightarrow>
          num (min_width self) \<le> image_width data \<and> image_width data \<le> num (max_width self)) \<longrightarrow>
       (truthy (min_height self) \<and> truthy (max_height self) \<longrightarrow>
          num (min_height self) \<le> image_height data \<and> image_height data \<le> num (max_height self)) \<longrightarrow>
       clean self (Inr data) = Inr data)"
  by (auto simp: clean_def)

theorem clean_dimensions_witness:
  "(\<exists>m. clean \<lparr>width = None, height = None, min_width = Some 1, max_width = Some 100,
          min_height = Some 1, max_height = Some 100, max_upload_size = Some 0\<rparr>
     (Inr \<lparr>file_size = Some 20, image_width = 101, image_height = 50\<rparr>)
     = Inl (ValidationError m))
   \<and> (\<exists>m. clean \<lparr>width = None, height = None, min_width = Some 1, max_width = Some 100,
          min_height = Some 1, max_height = Some 100, max_upload_size = Some 0\<rparr>
     (Inr \<lparr>file_size = Some 20, image_width = 50, image_height = 0\<rparr>)
     = Inl (ValidationError m))
   \<and> clean \<lparr>width = None, height = None, min_width = Some 1, max_width = Some 100,
          min_height = Some 1, max_height = Some 100, max_upload_size = Some 0\<rparr>
     (Inr \<lparr>file_size = Some 20, image_width = 50, image_height = 50\<rparr>)
     = Inr \<lparr>file_size = Some 20, image_width = 50, image_height = 50\<rparr>"
  using clean_dimensions [of "\<lparr>width = None, height = None, min_width = Some 1, max_width = Some 100,
          min_height = Some 1, max_height = Some 100, max_upload_size = Some 0\<rparr>"
          "\<lparr>file_size = Some 20, image_width = 101, image_height = 50\<rparr>"]
    clean_dimensions [of "\<lparr>width = None, height = None, min_width = Some 1, max_width = Some 100,
          min_height = Some 1, max_height = Some 100, max_upload_size = Some 0\<rparr>"
          "\<lparr>file_size = Some 20, image_width = 50, image_height = 0\<rparr>"]
    clean_dimensions [of "\<lparr>width = None, height = None, min_width = Some 1, max_width = Some 100,
          min_height = Some 1, max_height = Some 100, max_upload_size = Some 0\<rparr>"
          "\<lparr>file_size = Some 20, image_width = 50, image_height = 50\<rparr>"]
  by (simp add: truthy_def num_def)

text \<open>
  Claim C5 as stated fails: an image whose width and height lie within the configured
  bounds is rejected, not returned, when its file is larger than \<^verbatim>\<open>max_upload_size\<close>.
\<close>

theorem clean_in_range_rejected:
  "(1::int) \<le> 50 \<and> (50::int) \<le> 100
   \<and> clean \<lparr>width = None, height = None, min_width = Some 1, max_width = Some 100,
          min_height = Some 1, max_height = Some 100, max_upload_size = Some 10\<rparr>
     (Inr \<lparr>file_size = Some 20, image_width = 50, image_height = 50\<rparr>)
     = Inl (ValidationError (FileTooLarge 10 20))"
  by (simp add: clean_def truthy_def num_def)

text \<open>
  Claim C8. When \<^verbatim>\<open>min_width\<close> or \<^verbatim>\<open>max_width\<close> is \<^verbatim>\<open>None\<close> or zero, \<^verbatim>\<open>clean\<close> never
  raises the width error and its outcome is the same for every width; likewise for the
  height. A bound that is not among the keyword arguments of \<^verbatim>\<open>__init__\<close> is unset.
\<close>

theorem clean_skips_unset_bounds:
  "((\<not> truthy (min_width self) \<or> \<not> truthy (max_width self)) \<longrightarrow>
       clean self (Inr data) \<noteq> Inl (ValidationError (WidthNotAllowed lo hi w))
       \<and> clean self (Inr (data\<lparr>image_width := w'\<rparr>))
           = map_sum id (\<lambda>d. d\<lparr>image_width := w'\<rparr>) (clean self (Inr data)))
   \<and> ((\<not> truthy (min_height self) \<or> \<not> truthy (max_height self)) \<longrightarrow>
       clean self (Inr data) \<noteq> Inl (ValidationError (HeightNotAllowed lo hi w))
       \<and> clean self (Inr (data\<lparr>image_height := w'\<rparr>))
           = map_sum id (\<lambda>d. d\<lparr>image_height := w'\<rparr>) (clean self (Inr data)))
   \<and> (\<not> truthy v) = (v = None \<or> v = Some 0)
   \<and> (kwargs ''min_width'' = None \<longrightarrow> \<not> truthy (min_width (ExtendedImageField_init kwargs)))
   \<and> (kwargs ''max_width'' = None \<longrightarrow> \<not> truthy (max_width (ExtendedImageField_init kwargs)))
   \<and> (kwargs ''min_height'' = None \<longrightarrow> \<not> truthy (min_height (ExtendedImageField_init kwargs)))
   \<and> (kwargs ''max_height'' = None \<longrightarrow> \<not> truthy (max_height (ExtendedImageField_init kwargs)))"
proof (intro conjI impI)
  show "(\<not> truthy v) = (v = None \<or> v = Some 0)" by (rule truthy_unset)
qed (auto simp: clean_def ExtendedImageField_init_def pop_def truthy_def)

theorem clean_skips_unset_bounds_witness:
  "\<not> truthy (max_width (ExtendedImageField_init [''min_width'' \<mapsto> Some 100]))
   \<and> clean (ExtendedImageField_init [''min_width'' \<mapsto> Some 100])
        (Inr \<lparr>file_size = Some 20, image_width = 5, image_height = 7\<rparr>)
       = Inr \<lparr>file_size = Some 20, image_width = 5, image_height = 7\<rparr>
   \<and> \<not> truthy (min_height (ExtendedImageField_init [''max_height'' \<mapsto> Some 100]))
   \<and> clean (ExtendedImageField_init [''max_height'' \<mapsto> Some 100])
        (Inr \<lparr>file_size = Some 20, image_width = 5, image_height = 7000\<rparr>)
       = Inr \<lparr>file_size = Some 20, image_width = 5, image_height = 7000\<rparr>"
proof -
  let ?w = "ExtendedImageField_init [''min_width'' \<mapsto> Some 100]"
  let ?h = "ExtendedImageField_init [''max_height'' \<mapsto> Some 100]"
  have w0: "clean ?w (Inr \<lparr>file_size = Some 20, image_width = 100, image_height = 7\<rparr>)
      = Inr \<lparr>file_size = Some 20, image_width = 100, image_height = 7\<rparr>"
    by (simp add: clean_def ExtendedImageField_init_def pop_def truthy_def)
  have h0: "clean ?h (Inr \<lparr>file_size = Some 20, image_width = 5, image_height = 100\<rparr>)
      = Inr \<lparr>file_size = Some 20, image_width = 5, image_height = 100\<rparr>"
    by (simp add: clean_def ExtendedImageField_init_def pop_def truthy_def)
  show ?thesis
    using clean_skips_unset_bounds [where kwargs = "[''min_width'' \<mapsto> Some 100]"
        and self = ?w and w' = 5
        and data = "\<lparr>file_size = Some 20, image_width = 100, image_height = 7\<rparr>"]
      clean_skips_unset_bounds [where kwargs = "[''max_height'' \<mapsto> Some 100]"
        and self = ?h and w' = 7000
        and data = "\<lparr>file_size = Some 20, image_width = 5, image_height = 100\<rparr>"]
      w0 h0
    by (simp add: ExtendedImageField_init_def pop_def truthy_def)
qed

lemma rfind_absent: "c \<notin> set p \<Longrightarrow> rfind c p = - 1"
  by (simp add: rfind_def)

lemma rfind_last: "c \<notin> set ys \<Longrightarrow> rfind c (xs @ c # ys) = int (length xs)"
proof -
  assume "c \<notin> set ys"
  then have "\<forall>x\<in>set (rev ys). x \<noteq> c" by auto
  then have "takeWhile (\<lambda>x. x \<noteq> c) (rev ys @ c # rev xs) = rev ys"
    by (simp add: takeWhile_tail)
  then show ?thesis by (simp add: rfind_def)
qed

lemma path_split_tail_slash:
  assumes "CHR ''/'' \<notin> set base"
  shows "path_split_tail (xs @ CHR ''/'' # base) = base"
proof -
  have "rfind CHR ''/'' (xs @ CHR ''/'' # base) = int (length xs)"
    using assms by (rule rfind_last)
  moreover have "nat (int (length xs) + 1) = Suc (length xs)" by simp
  ultimately show ?thesis by (simp add: path_split_tail_def)
qed

lemma path_split_tail_base:
  assumes "dir = [] \<or> last dir = CHR ''/''" and "CHR ''/'' \<notin> set base"
  shows "path_split_tail (dir @ base) = base"
proof (cases "dir = []")
  case True
  with assms(2) show ?thesis by (simp add: path_split_tail_def rfind_absent)
next
  case False
  with assms(1) obtain d where d: "dir = d @ [CHR ''/'']"
    by (metis append_butlast_last_id)
  from path_split_tail_slash [OF assms(2), of d] show ?thesis
    unfolding d by simp
qed

lemma path_splitext_root_stem:
  assumes "CHR ''/'' \<notin> set stem" and "CHR ''/'' \<notin> set ext" and "CHR ''.'' \<notin> set ext"
      and "\<exists>c\<in>set stem. c \<noteq> CHR ''.''"
  shows "path_splitext_root (stem @ CHR ''.'' # ext) = stem"
proof -
  have sep: "rfind CHR ''/'' (stem @ CHR ''.'' # ext) = - 1"
    using assms(1,2) by (simp add: rfind_absent)
  have dot: "rfind CHR ''.'' (stem @ CHR ''.'' # ext) = int (length stem)"
    using assms(3) by (rule rfind_last)
  have "list_ex (\<lambda>x. x \<noteq> CHR ''.'') stem"
    using assms(4) by (simp add: list_ex_iff)
  with sep dot show ?thesis
    by (simp add: path_splitext_root_def Let_def)
qed

lemma path_splitext_root_no_dot:
  "CHR ''.'' \<notin> set base \<Longrightarrow> CHR ''/'' \<notin> set base \<Longrightarrow> path_splitext_root base = base"
  by (simp add: path_splitext_root_def Let_def rfind_absent)

text \<open>
  Claim C7. With a width \<open>w\<close> and a height \<open>hh\<close> configured, both not zero, and a file
  whose name is not empty, \<^verbatim>\<open>save_form_data\<close> hands to the parent a new
  \<^verbatim>\<open>SimpleUploadedFile\<close>. Its content is the PNG encoding of the thumbnail of the opened
  image for the box \<open>(w, hh)\<close>, where the imaging library returns these. Its name is the
  root of the last path component followed by \<^verbatim>\<open>.png\<close>: for a name made of a directory
  part, a stem with a character other than a dot and an extension it is the stem with
  \<^verbatim>\<open>.png\<close>, and for a name without an extension it is the base name with \<^verbatim>\<open>.png\<close>.
  When the width or the height is \<^verbatim>\<open>None\<close> or zero, or the data is \<^verbatim>\<open>None\<close>,
  \<^verbatim>\<open>False\<close> or a file with an empty name, the data is handed on as given.
\<close>

theorem save_form_data_resizes:
  "(data = DataFile name content \<longrightarrow> name \<noteq> [] \<longrightarrow>
      width self = Some w \<longrightarrow> w \<noteq> 0 \<longrightarrow> height self = Some hh \<longrightarrow> hh \<noteq> 0 \<longrightarrow>
      Image_open lib content = Inr img \<longrightarrow>
      thumbnail lib img (w, hh) = Inr img' \<longrightarrow>
      save_PNG lib img' = Inr png \<longrightarrow>
      (\<exists>filename.
          save_form_data lib self data = Inr (SimpleUploadedFile filename png)
        \<and> filename = path_splitext_root (path_split_tail name) @ ''.png''
        \<and> (name = dir @ stem @ CHR ''.'' # ext \<longrightarrow>
             dir = [] \<or> last dir = CHR ''/'' \<longrightarrow>
             CHR ''/'' \<notin> set stem \<longrightarrow> CHR ''/'' \<notin> set ext \<longrightarrow> CHR ''.'' \<notin> set ext \<longrightarrow>
             (\<exists>c\<in>set stem. c \<noteq> CHR ''.'') \<longrightarrow>
             filename = stem @ ''.png'')
        \<and> (name = dir @ base \<longrightarrow>
             dir = [] \<or> last dir = CHR ''/'' \<longrightarrow>
             CHR ''/'' \<notin> set base \<longrightarrow> CHR ''.'' \<notin> set base \<longrightarrow>
             filename = base @ ''.png'')))
   \<and> (width self = None \<or> width self = Some 0 \<or> height self = None \<or> height self = Some 0
        \<or> data = DataNone \<or> data = DataFalse \<or> (\<exists>c. data = DataFile [] c) \<longrightarrow>
      save_form_data lib self data = Inr (Given data))"
proof (intro conjI impI)
  assume d: "data = DataFile name content" "name \<noteq> []"
    and w: "width self = Some w" "w \<noteq> 0" and h: "height self = Some hh" "hh \<noteq> 0"
    and lib: "Image_open lib content = Inr img" "thumbnail lib img (w, hh) = Inr img'"
      "save_PNG lib img' = Inr png"
  have run: "save_form_data lib self data
      = Inr (SimpleUploadedFile (path_splitext_root (path_split_tail name) @ ''.png'') png)"
    using d w h lib
    by (simp add: save_form_data_def resize_image_def data_truthy_def truthy_def num_def)
  have stem: "path_splitext_root (path_split_tail name) = stem"
    if "name = dir @ stem @ CHR ''.'' # ext" "dir = [] \<or> last dir = CHR ''/''"
      "CHR ''/'' \<notin> set stem" "CHR ''/'' \<notin> set ext" "CHR ''.'' \<notin> set ext"
      "\<exists>c\<in>set stem. c \<noteq> CHR ''.''"
  proof -
    have "path_split_tail (dir @ (stem @ CHR ''.'' # ext)) = stem @ CHR ''.'' # ext"
      using that(2,3,4) by (intro path_split_tail_base) auto
    with that show ?thesis by (simp add: path_splitext_root_stem)
  qed
  have base: "path_splitext_root (path_split_tail name) = base"
    if "name = dir @ base" "dir = [] \<or> last dir = CHR ''/''"
      "CHR ''/'' \<notin> set base" "CHR ''.'' \<notin> set base"
    using that by (simp add: path_split_tail_base path_splitext_root_no_dot)
  show "\<exists>filename.
          save_form_data lib self data = Inr (SimpleUploadedFile filename png)
        \<and> filename = path_splitext_root (path_split_tail name) @ ''.png''
        \<and> (name = dir @ stem @ CHR ''.'' # ext \<longrightarrow>
             dir = [] \<or> last dir = CHR ''/'' \<longrightarrow>
             CHR ''/'' \<notin> set stem \<longrightarrow> CHR ''/'' \<notin> set ext \<longrightarrow> CHR ''.'' \<notin> set ext \<longrightarrow>
             (\<exists>c\<in>set stem. c \<noteq> CHR ''.'') \<longrightarrow>
             filename = stem @ ''.png'')
        \<and> (name = dir @ base \<longrightarrow>
             dir = [] \<or> last dir = CHR ''/'' \<longrightarrow>
             CHR ''/'' \<notin> set base \<longrightarrow> CHR ''.'' \<notin> set base \<longrightarrow>
             filename = base @ ''.png'')"
    using run stem base by blast
next
  assume "width self = None \<or> width self = Some 0 \<or> height self = None \<or> height self = Some 0
        \<or> data = DataNone \<or> data = DataFalse \<or> (\<exists>c. data = DataFile [] c)"
  then have "\<not> truthy (width self) \<or> \<not> truthy (height self) \<or> \<not> data_truthy data"
    by (auto simp: truthy_def data_truthy_def)
  then show "save_form_data lib self data = Inr (Given data)"
    by (auto simp: save_form_data_def split: form_data.splits)
qed

theorem save_form_data_resizes_witness:
  "save_form_data
      \<lparr>Image_open = (\<lambda>b. Inr (b, 640::int, 480::int)),
       thumbnail = (\<lambda>(b, w, h) (bw, bh). Inr (b, min w bw, min h bh)),
       save_PNG = (\<lambda>(b, w, h). Inr ((if (w, h) = (100, 100) then ''PNG100x100:''
                                        else ''PNG?:'') @ b))\<rparr>
      \<lparr>width = Some 100, height = Some 100, min_width = None, max_width = None,
       min_height = None, max_height = None, max_upload_size = Some 0\<rparr>
      (DataFile ''a/me.jpg'' ''xyz'') = Inr (SimpleUploadedFile ''me.png'' ''PNG100x100:xyz'')
   \<and> save_form_data
      \<lparr>Image_open = (\<lambda>b. Inr (b, 640::int, 480::int)),
       thumbnail = (\<lambda>(b, w, h) (bw, bh). Inr (b, min w bw, min h bh)),
       save_PNG = (\<lambda>(b, w, h). Inr ((if (w, h) = (100, 100) then ''PNG100x100:''
                                        else ''PNG?:'') @ b))\<rparr>
      \<lparr>width = Some 100, height = None, min_width = None, max_width = None,
       min_height = None, max_height = None, max_upload_size = Some 0\<rparr>
      (DataFile ''a/me.jpg'' ''xyz'') = Inr (Given (DataFile ''a/me.jpg'' ''xyz''))
   \<and> save_form_data
      \<lparr>Image_open = (\<lambda>b. Inr (b, 640::int, 480::int)),
       thumbnail = (\<lambda>(b, w, h) (bw, bh). Inr (b, min w bw, min h bh)),
       save_PNG = (\<lambda>(b, w, h). Inr ((if (w, h) = (100, 100) then ''PNG100x100:''
                                        else ''PNG?:'') @ b))\<rparr>
      \<lparr>width = Some 100, height = Some 100, min_width = None, max_width = None,
       min_height = None, max_height = None, max_upload_size = Some 0\<rparr>
      DataNone = Inr (Given DataNone)"
proof -
  let ?lib = "\<lparr>Image_open = (\<lambda>b. Inr (b, 640::int, 480::int)),
       thumbnail = (\<lambda>(b, w, h) (bw, bh). Inr (b, min w bw, min h bh)),
       save_PNG = (\<lambda>(b :: string, w :: int, h :: int).
         Inr ((if (w, h) = (100, 100) then ''PNG100x100:'' else ''PNG?:'') @ b))\<rparr>"
  let ?both = "\<lparr>width = Some 100, height = Some 100, min_width = None, max_width = None,
       min_height = None, max_height = None, max_upload_size = Some 0\<rparr>"
  let ?one = "\<lparr>width = Some 100, height = None, min_width = None, max_width = None,
       min_height = None, max_height = None, max_upload_size = Some 0\<rparr>"
  note resized = save_form_data_resizes [where lib = ?lib and self = ?both
      and data = "DataFile ''a/me.jpg'' ''xyz''" and name = "''a/me.jpg''"
      and content = "''xyz''" and w = 100 and hh = 100
      and img = "(''xyz'', 640, 480)" and img' = "(''xyz'', 100, 100)"
      and png = "''PNG100x100:xyz''"
      and dir = "''a/''" and stem = "''me''" and ext = "''jpg''", THEN conjunct1]
  have "save_form_data ?lib ?both (DataFile ''a/me.jpg'' ''xyz'')
      = Inr (SimpleUploadedFile ''me.png'' ''PNG100x100:xyz'')"
    using resized by simp
  moreover have "save_form_data ?lib ?one (DataFile ''a/me.jpg'' ''xyz'')
      = Inr (Given (DataFile ''a/me.jpg'' ''xyz''))"
    using save_form_data_resizes [where lib = ?lib and self = ?one
      and data = "DataFile ''a/me.jpg'' ''xyz''", THEN conjunct2] by simp
  moreover have "save_form_data ?lib ?both DataNone = Inr (Given DataNone)"
    using save_form_data_resizes [where lib = ?lib and self = ?both
      and data = DataNone, THEN conjunct2] by simp
  ultimately show ?thesis by simp
qed

text \<open>
  Claim C6. Loading the module raises \<^verbatim>\<open>ImproperlyConfigured\<close> when the settings have no
  \<^verbatim>\<open>MACHINA_MARKUP_LANGUAGE\<close>, and when importing the module named by the dotted path
  raises \<^verbatim>\<open>ImportError\<close>.
\<close>

theorem load_module_improperly_configured:
  "load_module None import = Inl (ImproperlyConfigured SettingRequired)
   \<and> (rsplit_dot dotted_path = [module, func] \<longrightarrow> import module = Inl ImportError \<longrightarrow>
        load_module (Some (dotted_path, kwargs)) import
          = Inl (ImproperlyConfigured CouldNotImport))"
  by (simp add: load_module_def get_render_function_def)

theorem load_module_improperly_configured_witness:
  "load_module (Some (''md.render'', [(''safe'', True)]))
      (\<lambda>m. if m = ''markdown'' then Inr [''render'' \<mapsto> (0::nat)] else Inl ImportError)
     = Inl (ImproperlyConfigured CouldNotImport)
   \<and> load_module (None :: (string \<times> (string \<times> bool) list) option)
      (\<lambda>m. if m = ''markdown'' then Inr [''render'' \<mapsto> (0::nat)] else Inl ImportError)
     = Inl (ImproperlyConfigured SettingRequired)"
proof -
  let ?import = "\<lambda>m. if m = ''markdown'' then Inr [''render'' \<mapsto> (0::nat)] else Inl ImportError"
  have path: "rsplit_dot ''md.render'' = [''md'', ''render'']"
    by (simp add: rsplit_dot_def rfind_def)
  have missing: "?import ''md'' = Inl ImportError"
    by simp
  note at_md = load_module_improperly_configured [where dotted_path = "''md.render''"
        and module = "''md''" and func = "''render''" and import = ?import
        and kwargs = "[(''safe'', True)]"]
  from at_md path missing show ?thesis
    by blast
qed

end
